theory Spec2Isabelle
  imports Complex_Main
begin

section \<open>Array elements and the numpy operations of the transfer functions\<close>

text \<open>
  The transfer functions of \<^verbatim>\<open>rimm_romm_rgb.py\<close> work element-wise on numpy arrays of
  floats. An element is a finite value, one of the two infinities, or NaN. Finite values
  are computed in exact real arithmetic: rounding, overflow and underflow of the binary
  format are outside the model, and zero carries no sign (a zero divisor counts as
  \<open>+0\<close>, which is what the divisors of the source are when they vanish).
\<close>

datatype npfloat = Fin real | PInf | NInf | NaN

text \<open>Comparisons: any comparison with NaN is false.\<close>

fun np_lt :: "npfloat \<Rightarrow> npfloat \<Rightarrow> bool" where
  "np_lt NaN _ = False"
| "np_lt _ NaN = False"
| "np_lt (Fin x) (Fin y) = (x < y)"
| "np_lt _ NInf = False"
| "np_lt NInf _ = True"
| "np_lt PInf _ = False"
| "np_lt _ PInf = True"

fun np_le :: "npfloat \<Rightarrow> npfloat \<Rightarrow> bool" where
  "np_le NaN _ = False"
| "np_le _ NaN = False"
| "np_le (Fin x) (Fin y) = (x \<le> y)"
| "np_le NInf _ = True"
| "np_le _ PInf = True"
| "np_le _ NInf = False"
| "np_le PInf _ = False"

definition np_gt :: "npfloat \<Rightarrow> npfloat \<Rightarrow> bool" where
  "np_gt a b = np_lt b a"

definition np_ge :: "npfloat \<Rightarrow> npfloat \<Rightarrow> bool" where
  "np_ge a b = np_le b a"

text \<open>Arithmetic with the IEEE special cases (no operation raises; numpy only warns).\<close>

fun np_neg :: "npfloat \<Rightarrow> npfloat" where
  "np_neg (Fin x) = Fin (- x)"
| "np_neg PInf = NInf"
| "np_neg NInf = PInf"
| "np_neg NaN = NaN"

fun np_add :: "npfloat \<Rightarrow> npfloat \<Rightarrow> npfloat" where
  "np_add NaN _ = NaN"
| "np_add _ NaN = NaN"
| "np_add (Fin x) (Fin y) = Fin (x + y)"
| "np_add PInf NInf = NaN"
| "np_add NInf PInf = NaN"
| "np_add PInf _ = PInf"
| "np_add _ PInf = PInf"
| "np_add NInf _ = NInf"
| "np_add _ NInf = NInf"

definition np_sub :: "npfloat \<Rightarrow> npfloat \<Rightarrow> npfloat" where
  "np_sub a b = np_add a (np_neg b)"

fun np_mul :: "npfloat \<Rightarrow> npfloat \<Rightarrow> npfloat" where
  "np_mul NaN _ = NaN"
| "np_mul _ NaN = NaN"
| "np_mul (Fin x) (Fin y) = Fin (x * y)"
| "np_mul (Fin x) PInf = (if x = 0 then NaN else if 0 < x then PInf else NInf)"
| "np_mul (Fin x) NInf = (if x = 0 then NaN else if 0 < x then NInf else PInf)"
| "np_mul PInf (Fin y) = (if y = 0 then NaN else if 0 < y then PInf else NInf)"
| "np_mul NInf (Fin y) = (if y = 0 then NaN else if 0 < y then NInf else PInf)"
| "np_mul PInf PInf = PInf"
| "np_mul NInf NInf = PInf"
| "np_mul PInf NInf = NInf"
| "np_mul NInf PInf = NInf"

fun np_div :: "npfloat \<Rightarrow> npfloat \<Rightarrow> npfloat" where
  "np_div NaN _ = NaN"
| "np_div _ NaN = NaN"
| "np_div (Fin x) (Fin y) =
     (if y \<noteq> 0 then Fin (x / y)
      else if x = 0 then NaN else if 0 < x then PInf else NInf)"
| "np_div (Fin x) _ = Fin 0"
| "np_div PInf (Fin y) = (if 0 \<le> y then PInf else NInf)"
| "np_div NInf (Fin y) = (if 0 \<le> y then NInf else PInf)"
| "np_div _ _ = NaN"

text \<open>
  \<^verbatim>\<open>x ** p\<close> on an array element, for the exponents of the source: \<^verbatim>\<open>1 / 1.8\<close>,
  \<^verbatim>\<open>1.8\<close>, \<^verbatim>\<open>0.45\<close> and \<^verbatim>\<open>1 / 0.45\<close>, all positive and not integers. A negative base
  then gives NaN and both infinities give \<open>+inf\<close>.
\<close>

fun np_power :: "npfloat \<Rightarrow> real \<Rightarrow> npfloat" where
  "np_power (Fin x) p = (if 0 \<le> x then Fin (x powr p) else NaN)"
| "np_power PInf p = PInf"
| "np_power NInf p = PInf"
| "np_power NaN p = NaN"

fun np_log :: "npfloat \<Rightarrow> npfloat" where
  "np_log (Fin x) = (if 0 < x then Fin (ln x) else if x = 0 then NInf else NaN)"
| "np_log PInf = PInf"
| "np_log NInf = NaN"
| "np_log NaN = NaN"

fun np_exp :: "npfloat \<Rightarrow> npfloat" where
  "np_exp (Fin x) = Fin (exp x)"
| "np_exp PInf = PInf"
| "np_exp NInf = Fin 0"
| "np_exp NaN = NaN"

text \<open>\<^verbatim>\<open>np.round\<close> rounds to the nearest integer, a tie to the even one.\<close>

definition round_half_even :: "real \<Rightarrow> int" where
  "round_half_even x =
     (let f = \<lfloor>x\<rfloor>; d = x - of_int f
      in if d < 1 / 2 then f else if 1 / 2 < d then f + 1
         else if even f then f else f + 1)"

fun np_round :: "npfloat \<Rightarrow> npfloat" where
  "np_round (Fin x) = Fin (of_int (round_half_even x))"
| "np_round v = v"

text \<open>\<^verbatim>\<open>np.where(c, a, b)\<close> on one element.\<close>

definition np_where :: "bool \<Rightarrow> npfloat \<Rightarrow> npfloat \<Rightarrow> npfloat" where
  "np_where c a b = (if c then a else b)"

text \<open>
  \<^verbatim>\<open>np.select(condlist, choicelist)\<close> on one element: the choice of the first condition
  that holds, and the default \<open>0\<close> when none does.
\<close>

fun np_select :: "(bool \<times> npfloat) list \<Rightarrow> npfloat" where
  "np_select [] = Fin 0"
| "np_select ((c, v) # rest) = (if c then v else np_select rest)"

section \<open>ROMM RGB\<close>

text \<open>
  \<^verbatim>\<open>I_max = 2 ** bit_depth - 1\<close>, with Python's \<^verbatim>\<open>**\<close> on an integer exponent: an
  integer for \<open>bit_depth \<ge> 0\<close>, the float \<open>1 / 2 ^ (- bit_depth)\<close> below.
\<close>

definition I_max_of :: "int \<Rightarrow> real" where
  "I_max_of bit_depth =
     (if 0 \<le> bit_depth then 2 ^ nat bit_depth - 1 else 1 / 2 ^ nat (- bit_depth) - 1)"

text \<open>
  Modelled from the spec: the helper \<^verbatim>\<open>as_numeric(a, dtype)\<close> of \<^verbatim>\<open>colour.utilities\<close> is
  not among the source files. By the spec, the integer output is the rounded value
  returned as an integer-typed code value and the float output is the normalised value:
  the helper changes the type of the number, not the number. The model keeps the value;
  what the conversion to \<^verbatim>\<open>np.int_\<close> makes of an infinity or of NaN depends on the
  platform and is not modelled. \<^verbatim>\<open>DEFAULT_FLOAT_DTYPE\<close> of \<^verbatim>\<open>colour.constants\<close> is the float
  type of the elements.
\<close>

datatype dtype = DEFAULT_FLOAT_DTYPE | np_int

definition as_numeric :: "npfloat \<Rightarrow> dtype \<Rightarrow> npfloat" where
  [simp]: "as_numeric a dt = a"

definition oetf_ROMMRGB :: "npfloat \<Rightarrow> int \<Rightarrow> bool \<Rightarrow> npfloat" where
  "oetf_ROMMRGB X bit_depth out_int =
     (let I_max = I_max_of bit_depth;
          E_t = 16 powr (1.8 / (1 - 1.8));
          X_p = np_where (np_lt X (Fin E_t))
                  (np_mul (np_mul X (Fin 16)) (Fin I_max))
                  (np_mul (np_power X (1 / 1.8)) (Fin I_max))
      in if out_int then as_numeric (np_round X_p) np_int
         else as_numeric (np_div X_p (Fin I_max)) DEFAULT_FLOAT_DTYPE)"

definition eotf_ROMMRGB :: "npfloat \<Rightarrow> int \<Rightarrow> bool \<Rightarrow> npfloat" where
  "eotf_ROMMRGB X_p0 bit_depth in_int =
     (let I_max = I_max_of bit_depth;
          X_p = (if \<not> in_int then np_mul X_p0 (Fin I_max) else X_p0);
          E_t = 16 powr (1.8 / (1 - 1.8));
          X = np_where (np_lt X_p (Fin (16 * E_t * I_max)))
                (np_div X_p (Fin (16 * I_max)))
                (np_power (np_div X_p (Fin I_max)) 1.8)
      in as_numeric X DEFAULT_FLOAT_DTYPE)"

definition oetf_ProPhotoRGB :: "npfloat \<Rightarrow> int \<Rightarrow> bool \<Rightarrow> npfloat" where
  "oetf_ProPhotoRGB = oetf_ROMMRGB"

definition eotf_ProPhotoRGB :: "npfloat \<Rightarrow> int \<Rightarrow> bool \<Rightarrow> npfloat" where
  "eotf_ProPhotoRGB = eotf_ROMMRGB"

section \<open>RIMM RGB\<close>

text \<open>
  \<open>E_clip\<close> is a Python float, and \<^verbatim>\<open>V_clip = 1.099 * E_clip ** 0.45 - 0.099\<close> and
  \<^verbatim>\<open>q = I_max / V_clip\<close> are Python scalar arithmetic, which raises where numpy would
  warn. A negative \<open>E_clip\<close> has no real power \<open>0.45\<close>: Python 2 raises ValueError at
  \<^verbatim>\<open>**\<close>, Python 3 makes \<open>V_clip\<close> and \<open>q\<close> complex and the in-place
  \<^verbatim>\<open>X_p_RIMM *= q\<close> on the float array raises TypeError. A zero \<open>V_clip\<close> raises
  ZeroDivisionError.
\<close>

datatype error = NegativeBase | ZeroDivisionError

definition python_pow :: "real \<Rightarrow> real \<Rightarrow> error + real" where
  "python_pow x p = (if x < 0 then Inl NegativeBase else Inr (x powr p))"

definition V_clip_of :: "real \<Rightarrow> error + real" where
  "V_clip_of E_clip =
     (case python_pow E_clip 0.45 of
        Inl e \<Rightarrow> Inl e
      | Inr w \<Rightarrow> Inr (1.099 * w - 0.099))"

definition python_div :: "real \<Rightarrow> real \<Rightarrow> error + real" where
  "python_div a b = (if b = 0 then Inl ZeroDivisionError else Inr (a / b))"

definition oetf_RIMMRGB :: "npfloat \<Rightarrow> int \<Rightarrow> bool \<Rightarrow> real \<Rightarrow> error + npfloat" where
  "oetf_RIMMRGB X bit_depth out_int E_clip =
     (let I_max = I_max_of bit_depth
      in case V_clip_of E_clip of
           Inl e \<Rightarrow> Inl e
         | Inr V_clip \<Rightarrow>
            (case python_div I_max V_clip of
               Inl e \<Rightarrow> Inl e
             | Inr q \<Rightarrow>
                (let X_p_RIMM = np_select
                       [(np_lt X (Fin 0.0), Fin 0),
                        (np_lt X (Fin 0.018), np_mul (Fin 4.5) X),
                        (np_ge X (Fin 0.018),
                           np_sub (np_mul (Fin 1.099) (np_power X 0.45)) (Fin 0.099)),
                        (np_gt X (Fin E_clip), Fin I_max)];
                     X_p_RIMM = np_mul X_p_RIMM (Fin q)
                 in Inr (if out_int then as_numeric (np_round X_p_RIMM) np_int
                         else as_numeric (np_div X_p_RIMM (Fin I_max))
                                DEFAULT_FLOAT_DTYPE))))"

definition eotf_RIMMRGB :: "npfloat \<Rightarrow> int \<Rightarrow> bool \<Rightarrow> real \<Rightarrow> error + npfloat" where
  "eotf_RIMMRGB X_p0 bit_depth in_int E_clip =
     (let I_max = I_max_of bit_depth;
          X_p = (if \<not> in_int then np_mul X_p0 (Fin I_max) else X_p0)
      in case V_clip_of E_clip of
           Inl e \<Rightarrow> Inl e
         | Inr V_clip \<Rightarrow>
            (let m = np_div (np_mul (Fin V_clip) X_p) (Fin I_max)
             in case oetf_RIMMRGB (Fin 0.018) bit_depth False E_clip of
                  Inl e \<Rightarrow> Inl e
                | Inr knee \<Rightarrow>
                    (let X_RIMM = np_where (np_lt (np_div X_p (Fin I_max)) knee)
                           (np_div m (Fin 4.5))
                           (np_power (np_div (np_add m (Fin 0.099)) (Fin 1.099))
                              (1 / 0.45))
                     in Inr (as_numeric X_RIMM DEFAULT_FLOAT_DTYPE))))"

section \<open>ERIMM RGB\<close>

text \<open>
  \<open>E_min\<close> and \<open>E_clip\<close> are Python floats, but they only pass through \<^verbatim>\<open>np.exp\<close>
  and \<^verbatim>\<open>np.log\<close>, whose results are numpy scalars: a logarithm of a non-positive
  parameter or a vanishing denominator gives an infinity or NaN, never an exception.
\<close>

definition log_encoding_ERIMMRGB ::
    "npfloat \<Rightarrow> int \<Rightarrow> bool \<Rightarrow> real \<Rightarrow> real \<Rightarrow> npfloat" where
  "log_encoding_ERIMMRGB X bit_depth out_int E_min E_clip =
     (let I_max = I_max_of bit_depth;
          E_t = np_mul (np_exp (Fin 1)) (Fin E_min);
          X_p = np_select
            [(np_lt X (Fin 0.0), Fin 0),
             (np_le X E_t,
                np_mul
                  (np_mul (Fin I_max)
                     (np_div (np_sub (np_log E_t) (np_log (Fin E_min)))
                        (np_sub (np_log (Fin E_clip)) (np_log (Fin E_min)))))
                  (np_div X E_t)),
             (np_gt X E_t,
                np_mul (Fin I_max)
                  (np_div (np_sub (np_log X) (np_log (Fin E_min)))
                     (np_sub (np_log (Fin E_clip)) (np_log (Fin E_min))))),
             (np_gt X (Fin E_clip), Fin I_max)]
      in if out_int then as_numeric (np_round X_p) np_int
         else as_numeric (np_div X_p (Fin I_max)) DEFAULT_FLOAT_DTYPE)"


section \<open>DSLR camera spectral sensitivities\<close>

text \<open>
  The tables of \<^verbatim>\<open>spectral_sensitivities.py\<close>: for each camera and channel, the pairs of
  wavelength (nm) and sensitivity in the order of the source. Nikon 5100 (NPL) is sampled
  every 5 nm from 380 to 780, Sigma SDMerill (NPL) every 10 nm from 400 to 680. Trailing
  zeros of the decimals are dropped and the exponent notation is written out.
\<close>

definition Nikon_5100_NPL_red :: "(real \<times> real) list" where
  "Nikon_5100_NPL_red =
     [(380, 0.00156384299336578), (385, 0.00189691771384825), (390, 0), (395, 0),
      (400, 0), (405, 0.00071776703300973298), (410, 0.0029239746656333),
      (415, 0.0129362680171374), (420, 0.0495978648156652),
      (425, 0.076072504359704002), (430, 0.076588927082743993),
      (435, 0.068333819560360096), (440, 0.061318161896465599),
      (445, 0.054733144577897602), (450, 0.048862047437023201),
      (455, 0.042845919742573998), (460, 0.040228453326914999),
      (465, 0.043407959922632397), (470, 0.047620214311774302),
      (475, 0.0507718848055939), (480, 0.052803295972254999),
      (485, 0.052571220254950903), (490, 0.047894639028459501),
      (495, 0.048239941704838599), (500, 0.050229240897180297),
      (505, 0.055076497350014297), (510, 0.063702119011786199),
      (515, 0.080389513058959999), (520, 0.10038750399831201),
      (525, 0.118613149023134), (530, 0.12360875120338), (535, 0.10306249932787701),
      (540, 0.0763410836067272), (545, 0.052780863646409), (550, 0.041188738310586497),
      (555, 0.039043853519310501), (560, 0.042544294400891199),
      (565, 0.060213132410680201), (570, 0.111796217050668),
      (575, 0.26967059703276203), (580, 0.56450337990639099),
      (585, 0.85360126947261405), (590, 0.98103242181506201), (595, 1),
      (600, 0.96307105371259005), (605, 0.90552061898043101),
      (610, 0.83427841652645296), (615, 0.76798733762510296),
      (620, 0.70366798041157996), (625, 0.63916484476123703),
      (630, 0.57081292173776299), (635, 0.495817961931588), (640, 0.43833913452368101),
      (645, 0.38896992260406899), (650, 0.342956212054847), (655, 0.29278541836293998),
      (660, 0.23770718073119301), (665, 0.16491386803178501),
      (670, 0.091287717063771506), (675, 0.042056150472835903),
      (680, 0.020582678776783801), (685, 0.0102868059636961),
      (690, 0.0054075984624726197), (695, 0.00272409261591003),
      (700, 0.00127834798711079), (705, 0.00078123118374132301),
      (710, 0.00047981421940270001), (715, 0.00049133356428571098),
      (720, 0.00017414897796340199), (725, 0.00012017462571764001), (730, 0),
      (735, 0.000061199999999999997), (740, 0), (745, 0),
      (750, 0.00031099754946016501), (755, 0), (760, 0), (765, 0),
      (770, 0.000085599999999999994), (775, 0.00013831372865247499),
      (780, 0.000036199999999999999)]"

definition Nikon_5100_NPL_green :: "(real \<times> real) list" where
  "Nikon_5100_NPL_green =
     [(380, 0.000115), (385, 0.00152114360178015), (390, 0.00057430499183558695),
      (395, 0), (400, 0), (405, 0.00119722386224553), (410, 0.00133571498448177),
      (415, 0.013194316960528101), (420, 0.064971024512495396),
      (425, 0.115103087188289), (430, 0.13706582547087201), (435, 0.152428525840306),
      (440, 0.16864005450745301), (445, 0.183299346050496), (450, 0.196032634562296),
      (455, 0.21733653278361301), (460, 0.25424357380995), (465, 0.30864811930649899),
      (470, 0.37346871184252001), (475, 0.42915806139893697),
      (480, 0.45965432432137399), (485, 0.47106435446394301),
      (490, 0.48885616444524799), (495, 0.53715178104087602),
      (500, 0.61649118695883898), (505, 0.70700638759968903),
      (510, 0.80096424601366301), (515, 0.88137256686267296),
      (520, 0.93887792119838498), (525, 0.98446559576523596), (530, 1),
      (535, 0.99084026557129701), (540, 0.96154626462922099),
      (545, 0.92814388346877297), (550, 0.88910231592076505),
      (555, 0.83494222924161199), (560, 0.776318075001875), (565, 0.70731424532056497),
      (570, 0.63579620249170998), (575, 0.56551528450380395),
      (580, 0.49275517253522499), (585, 0.42475654159075799),
      (590, 0.35178931226078303), (595, 0.27817849879541801),
      (600, 0.21167353249961901), (605, 0.15671644549433), (610, 0.118039620730502),
      (615, 0.088852495342314403), (620, 0.070101844048536699),
      (625, 0.056908994708932202), (630, 0.047298791018958397),
      (635, 0.041195890025565798), (640, 0.0352520708499122),
      (645, 0.030693131445324501), (650, 0.026803962956839501),
      (655, 0.023524301198715201), (660, 0.020346332524746599),
      (665, 0.015458483253408799), (670, 0.0094407510461715898),
      (675, 0.0050810220406350597), (680, 0.0029101916690175201),
      (685, 0.0016265755779338201), (690, 0.00092251569139627796),
      (695, 0.00049743349969026901), (700, 0.00041215940263165701),
      (705, 0.000316926341046663), (710, 0.00025621496960251102), (715, 0),
      (720, 0.000243535188653412), (725, 0.0000602), (730, 0), (735, 0), (740, 0),
      (745, 0.000017099999999999999), (750, 0.000052099999999999999),
      (755, 0.000088499999999999996), (760, 0), (765, 0),
      (770, 0.00013799999999999999), (775, 0.000178650172705941),
      (780, 0.000042500000000000003)]"

definition Nikon_5100_NPL_blue :: "(real \<times> real) list" where
  "Nikon_5100_NPL_blue =
     [(380, 0.0018095603940233599), (385, 0.00048982814544150399),
      (390, 0.00087943069176996504), (395, 0), (400, 0.00153246068848051),
      (405, 0.0056980560228206203), (410, 0.016608287698741502),
      (415, 0.078791205592145905), (420, 0.36171350364994898),
      (425, 0.65970462106512295), (430, 0.75534360010359503),
      (435, 0.81045312707380701), (440, 0.87494523362472998),
      (445, 0.92671273991178704), (450, 0.96314088025989897),
      (455, 0.98065048133510302), (460, 1), (465, 0.99640467488711104),
      (470, 0.98896988650084305), (475, 0.95660139953157997), (480, 0.904958869869808),
      (485, 0.83940927710351598), (490, 0.75146259578963404),
      (495, 0.66010202032260801), (500, 0.56706879193613802),
      (505, 0.47935094782603899), (510, 0.39406273870351299),
      (515, 0.31427061879449603), (520, 0.24981663439426), (525, 0.201823519247181),
      (530, 0.16163395085177601), (535, 0.13516143147333401),
      (540, 0.10998875716043301), (545, 0.086394354077893795),
      (550, 0.065253130592198394), (555, 0.047855953452275599),
      (560, 0.0341393230386094), (565, 0.024019909768519299),
      (570, 0.019767935984767501), (575, 0.0163484478107301),
      (580, 0.013817339370202599), (585, 0.0119529464796671),
      (590, 0.010009093958200901), (595, 0.0075877630892965797),
      (600, 0.0064558446352164997), (605, 0.0052297828568448803),
      (610, 0.0036599845950378699), (615, 0.0039553850548866704),
      (620, 0.0039683522165446803), (625, 0.0034913800448603699),
      (630, 0.0040430210318179701), (635, 0.00418929985295813),
      (640, 0.0055467685650005798), (645, 0.0054642332354774403),
      (650, 0.0059738284739209897), (655, 0.00630906774763779),
      (660, 0.0061041269774226798), (665, 0.00483655792375416),
      (670, 0.0030266479458698498), (675, 0.0017216970098767499),
      (680, 0.00078065128657817595), (685, 0.00056963070848184102),
      (690, 0.000275232961339382), (695, 0.00029672137857068598),
      (700, 0.00024951192304202899), (705, 0.000085000000000000006),
      (710, 0.00041916895092770603), (715, 0.00015331743444139899),
      (720, 0.000018300000000000001), (725, 0), (730, 0.00033869381945204901),
      (735, 0), (740, 0), (745, 0.000165278287340102), (750, 0.00017755262214537101),
      (755, 0), (760, 0.000024300000000000001), (765, 0.000061799999999999998),
      (770, 0.00026260703183506501), (775, 0.00028050537004191899), (780, 0)]"

definition Sigma_SDMerill_NPL_red :: "(real \<times> real) list" where
  "Sigma_SDMerill_NPL_red =
     [(400, 0.0056210744060870002), (410, 0.00650335624511722),
      (420, 0.0740791128914004), (430, 0.043022959462928799),
      (440, 0.034509525622470102), (450, 0.018891567234343501),
      (460, 0.007311076996802), (470, 0.045499151230960197),
      (480, 0.056767529211116802), (490, 0.13419592065917799),
      (500, 0.164752689978376), (510, 0.21712641978639199), (520, 0.30648343835824399),
      (530, 0.349845796148885), (540, 0.44374258133259298), (550, 0.44488860528126301),
      (560, 0.47897575674702603), (570, 0.50950291481073895),
      (580, 0.59262909378530504), (590, 0.67383327560697603),
      (600, 0.71403771488106504), (610, 0.860007613114951), (620, 0.89810302849565204),
      (630, 1), (640, 0.99494213311245205), (650, 0.92085127736137995),
      (660, 0.18143311631425299), (670, 0.0063097879537274996),
      (680, 0.00528874383171553)]"

definition Sigma_SDMerill_NPL_green :: "(real \<times> real) list" where
  "Sigma_SDMerill_NPL_green =
     [(400, 0.0063280975126311697), (410, 0.0097618045959127504),
      (420, 0.025271770082610501), (430, 0.083751185853112198),
      (440, 0.14370381974360999), (450, 0.18361168930882199),
      (460, 0.40909478009952999), (470, 0.51595564086176404),
      (480, 0.60120664662705503), (490, 0.67031679980136305),
      (500, 0.75258747153475802), (510, 0.84381384368944201),
      (520, 0.90151724558812696), (530, 0.91975030668767699),
      (540, 0.96799429052157804), (550, 0.95725231064041105), (560, 0.952047918600474),
      (570, 0.97628014458399803), (580, 0.97258624388955806), (590, 1),
      (600, 0.96948452757777404), (610, 0.95441319124850699),
      (620, 0.93335435890921303), (630, 0.92571406833636205),
      (640, 0.88486439541503403), (650, 0.76165184741615699),
      (660, 0.14052437057150499), (670, 0.0041436721581764599),
      (680, 0.0018319895816566901)]"

definition Sigma_SDMerill_NPL_blue :: "(real \<times> real) list" where
  "Sigma_SDMerill_NPL_blue =
     [(400, 0.16215942413307899), (410, 0.28549837804628603),
      (420, 0.39690431060902098), (430, 0.50831024317175599),
      (440, 0.62211847246948804), (450, 0.73742136245769496),
      (460, 0.94538036670138004), (470, 0.964414947702804), (480, 1),
      (490, 0.985980211884525), (500, 0.98340266357529005), (510, 0.96969219567072595),
      (520, 0.94280817402079797), (530, 0.89664279918070899),
      (540, 0.88444590220041897), (550, 0.86791899071597101),
      (560, 0.83375679584908402), (570, 0.83204140240572999),
      (580, 0.80054956384778198), (590, 0.78289512474646505),
      (600, 0.73946953007191796), (610, 0.66718640174985699),
      (620, 0.62043627806816704), (630, 0.61116087876956704),
      (640, 0.55173556195710605), (650, 0.46538831744516401),
      (660, 0.0796190783672069), (670, 0.00059244446107236802),
      (680, 0.0046856368048314098)]"

definition Nikon_5100_NPL_data :: "(string \<times> (real \<times> real) list) list" where
  "Nikon_5100_NPL_data =
     [(''red'', Nikon_5100_NPL_red), (''green'', Nikon_5100_NPL_green),
      (''blue'', Nikon_5100_NPL_blue)]"

definition Sigma_SDMerill_NPL_data :: "(string \<times> (real \<times> real) list) list" where
  "Sigma_SDMerill_NPL_data =
     [(''red'', Sigma_SDMerill_NPL_red), (''green'', Sigma_SDMerill_NPL_green),
      (''blue'', Sigma_SDMerill_NPL_blue)]"

definition DSL_CAMERAS_RGB_SPECTRAL_SENSITIVITIES_DATA ::
    "(string \<times> (string \<times> (real \<times> real) list) list) list" where
  "DSL_CAMERAS_RGB_SPECTRAL_SENSITIVITIES_DATA =
     [(''Nikon 5100 (NPL)'', Nikon_5100_NPL_data),
      (''Sigma SDMerill (NPL)'', Sigma_SDMerill_NPL_data)]"

text \<open>
  Modelled from the spec: the class \<^verbatim>\<open>RGB_SpectralSensitivities\<close> of
  \<^verbatim>\<open>colour.characterisation\<close> is not among the source files. The spec describes the
  record it builds: a camera name and the three named channels, each a mapping from
  wavelength to sensitivity.
\<close>

record RGB_SpectralSensitivities =
  name :: string
  data :: "(string \<times> (real \<times> real) list) list"

text \<open>
  Modelled from the spec: the error of a lookup with an unrecognised name (the spec's
  \<open>NotFoundError\<close>; the class that raises it, \<^verbatim>\<open>CaseInsensitiveMapping\<close>, is not among the
  source files).
\<close>

datatype key_error = NotFoundError

text \<open>
  Python's \<^verbatim>\<open>str.lower\<close> on the ASCII letters, the canonical case of the keys. The two
  camera names are ASCII.
\<close>

definition lower_char :: "char \<Rightarrow> char" where
  "lower_char c =
     (case map_of (zip ''ABCDEFGHIJKLMNOPQRSTUVWXYZ'' ''abcdefghijklmnopqrstuvwxyz'') c of
        None \<Rightarrow> c
      | Some l \<Rightarrow> l)"

definition lower :: "string \<Rightarrow> string" where
  "lower s = map lower_char s"

text \<open>
  Modelled from the spec: the class \<^verbatim>\<open>CaseInsensitiveMapping\<close> of \<^verbatim>\<open>colour.utilities\<close>
  is not among the source files. By the spec it is a lookup table that brings a key to a
  canonical case before insertion and before lookup. Items are inserted in order, a later
  one replacing an earlier one with the same lowered key.
\<close>

definition CaseInsensitiveMapping :: "(string \<times> 'v) list \<Rightarrow> (string \<rightharpoonup> 'v)" where
  "CaseInsensitiveMapping items = fold (\<lambda>(k, v) m. m(lower k \<mapsto> v)) items Map.empty"

text \<open>
  Modelled from the spec: the lookup \<^verbatim>\<open>mapping[key]\<close> of \<^verbatim>\<open>CaseInsensitiveMapping\<close>. By
  the spec it returns the record of the camera, whatever the case of the name, or fails
  with \<open>NotFoundError\<close> if the name is unrecognised.
\<close>

definition getitem :: "(string \<rightharpoonup> 'v) \<Rightarrow> string \<Rightarrow> key_error + 'v" where
  "getitem m k = (case m (lower k) of None \<Rightarrow> Inl NotFoundError | Some v \<Rightarrow> Inr v)"

text \<open>
  The store. The source passes \<^verbatim>\<open>DSL_CAMERAS_RGB_SPECTRAL_SENSITIVITIES_DATA[name]\<close> to
  each record; these two entries are the two tables above
  (lemma \<open>DATA_entries\<close>).
\<close>

definition DSL_CAMERAS_RGB_SPECTRAL_SENSITIVITIES ::
    "string \<rightharpoonup> RGB_SpectralSensitivities" where
  "DSL_CAMERAS_RGB_SPECTRAL_SENSITIVITIES =
     CaseInsensitiveMapping
       [(''Nikon 5100 (NPL)'',
           \<lparr>name = ''Nikon 5100 (NPL)'', data = Nikon_5100_NPL_data\<rparr>),
        (''Sigma SDMerill (NPL)'',
           \<lparr>name = ''Sigma SDMerill (NPL)'', data = Sigma_SDMerill_NPL_data\<rparr>)]"

section \<open>Closed forms used in the proofs\<close>

text \<open>
  The value that \<^verbatim>\<open>np.select\<close> picks in \<open>oetf_RIMMRGB\<close> for a finite element,
  before the scaling by \<open>q\<close>: the fourth condition \<^verbatim>\<open>X > E_clip\<close> is never the first one
  that holds, since one of the first three holds for every finite element.
\<close>

definition rimm_curve :: "real \<Rightarrow> real" where
  "rimm_curve x =
     (if x < 0 then 0 else if x < 0.018 then 4.5 * x else 1.099 * x powr 0.45 - 0.099)"


section \<open>Auxiliary facts\<close>

lemma two_powr_m9: "(2::real) powr (- 9) = 1 / 512"
proof -
  have "(2::real) powr (- 9) = inverse (2 powr 9)" by (rule powr_minus)
  then show ?thesis by simp
qed


lemma E_t_value: "(16::real) powr (1.8 / (1 - 1.8)) = 1 / 512"
proof -
  have "((2::real) powr 4) powr (- (9 / 4)) = 2 powr (- 9)"
    by (simp only: powr_powr) simp
  then have "(16::real) powr (- (9 / 4)) = 1 / 512"
    by (simp add: two_powr_m9)
  then show ?thesis by simp
qed

lemma E_t_value': "(16::real) powr (- (9 / 4)) = 1 / 512"
  using E_t_value by simp



lemma I_max_pos: "1 \<le> b \<Longrightarrow> 1 \<le> I_max_of b"
proof -
  assume b: "1 \<le> b"
  then have "(2::real) ^ 1 \<le> 2 ^ nat b" by (intro power_increasing) auto
  with b show ?thesis by (simp add: I_max_of_def)
qed

lemma I_max_neg: "b < 0 \<Longrightarrow> I_max_of b < 0"
proof -
  assume b: "b < 0"
  then have "(2::real) ^ 1 \<le> 2 ^ nat (- b)" by (intro power_increasing) auto
  then have "1 / (2::real) ^ nat (- b) < 1" by simp
  with b show ?thesis by (simp add: I_max_of_def)
qed

lemma I_max_nonzero: "b \<noteq> 0 \<Longrightarrow> I_max_of b \<noteq> 0"
  using I_max_pos [of b] I_max_neg [of b] by (cases "b < 0") auto


lemma I_max_8: "I_max_of 8 = 255"
  by (simp add: I_max_of_def)




lemma V_clip_of_nonneg: "0 \<le> E \<Longrightarrow> V_clip_of E = Inr (1.099 * E powr 0.45 - 0.099)"
  by (simp add: V_clip_of_def python_pow_def)

lemma V_clip_of_neg: "E < 0 \<Longrightarrow> V_clip_of E = Inl NegativeBase"
  by (simp add: V_clip_of_def python_pow_def)


lemma oetf_RIMMRGB_Fin:
  assumes "0 \<le> E" and "1.099 * E powr 0.45 - 0.099 \<noteq> 0" and "b \<noteq> 0"
  shows "oetf_RIMMRGB (Fin x) b False E =
           Inr (Fin (rimm_curve x / (1.099 * E powr 0.45 - 0.099)))"
  using assms(2) I_max_nonzero [OF assms(3)]
  by (simp add: oetf_RIMMRGB_def V_clip_of_nonneg [OF assms(1)] python_div_def Let_def
      np_ge_def np_gt_def np_sub_def rimm_curve_def)



lemma rimm_curve_knee: "rimm_curve 0.018 = 1.099 * 0.018 powr 0.45 - 0.099"
  by (simp add: rimm_curve_def)



lemma ln_E_t: "0 < E_min \<Longrightarrow> ln (exp 1 * E_min) - ln E_min = (1::real)"
  by (simp add: ln_mult_pos)

lemma log_encoding_ERIMMRGB_Fin:
  assumes m: "0 < E_min" and c: "0 < E_clip" and L: "ln E_clip - ln E_min \<noteq> 0" and b: "b \<noteq> 0"
  shows "log_encoding_ERIMMRGB (Fin x) b False E_min E_clip =
           Fin (if x < 0 then 0
                else if x \<le> exp 1 * E_min then 1 / (ln E_clip - ln E_min) * (x / (exp 1 * E_min))
                else (ln x - ln E_min) / (ln E_clip - ln E_min))"
proof -
  have I: "I_max_of b \<noteq> 0" by (rule I_max_nonzero [OF b])
  have Et: "0 < exp 1 * E_min" using m by simp
  show ?thesis
  proof (cases "x < 0")
    case True
    then show ?thesis using I by (simp add: log_encoding_ERIMMRGB_def Let_def)
  next
    case False
    then have x0: "0 \<le> x" by simp
    show ?thesis
    proof (cases "x \<le> exp 1 * E_min")
      case True
      then show ?thesis using I Et m c L x0 ln_E_t [OF m]
        by (simp add: log_encoding_ERIMMRGB_def Let_def np_sub_def np_gt_def)
    next
      case False
      then have xpos: "0 < x" using Et by simp
      show ?thesis using False I Et m c L
        by (simp add: log_encoding_ERIMMRGB_def Let_def np_sub_def np_gt_def xpos)
    qed
  qed
qed




lemma V_clip_default_pos: "(0::real) < 1.099 * 2 powr 0.45 - 0.099"
proof -
  have "(1::real) \<le> 2 powr 0.45" by (rule ge_one_powr_ge_zero) simp_all
  then show ?thesis by simp
qed

















lemma DATA_entries:
  "map_of DSL_CAMERAS_RGB_SPECTRAL_SENSITIVITIES_DATA ''Nikon 5100 (NPL)'' =
     Some Nikon_5100_NPL_data \<and>
   map_of DSL_CAMERAS_RGB_SPECTRAL_SENSITIVITIES_DATA ''Sigma SDMerill (NPL)'' =
     Some Sigma_SDMerill_NPL_data"
  by (simp add: DSL_CAMERAS_RGB_SPECTRAL_SENSITIVITIES_DATA_def)

lemma lower_nikon: "lower ''Nikon 5100 (NPL)'' = ''nikon 5100 (npl)''"
  by (simp add: lower_def lower_char_def)

lemma lower_sigma: "lower ''Sigma SDMerill (NPL)'' = ''sigma sdmerill (npl)''"
  by (simp add: lower_def lower_char_def)

lemma lower_canon: "lower ''Canon 5D'' = ''canon 5d''"
  by (simp add: lower_def lower_char_def)

lemma lower_nikon_lc: "lower ''nikon 5100 (npl)'' = ''nikon 5100 (npl)''"
  by (simp add: lower_def lower_char_def)

lemma lower_sigma_uc: "lower ''SIGMA SDMERILL (NPL)'' = ''sigma sdmerill (npl)''"
  by (simp add: lower_def lower_char_def)

lemma store_lookup:
  "DSL_CAMERAS_RGB_SPECTRAL_SENSITIVITIES k =
     (if k = ''sigma sdmerill (npl)''
      then Some \<lparr>name = ''Sigma SDMerill (NPL)'', data = Sigma_SDMerill_NPL_data\<rparr>
      else if k = ''nikon 5100 (npl)''
      then Some \<lparr>name = ''Nikon 5100 (NPL)'', data = Nikon_5100_NPL_data\<rparr>
      else None)"
  by (simp add: DSL_CAMERAS_RGB_SPECTRAL_SENSITIVITIES_def CaseInsensitiveMapping_def
      lower_nikon lower_sigma)

lemma powr_ratio_lower:
  fixes a c :: real
  assumes c: "0 < c" and a: "0 < a" and q: "0 < q" and le: "c ^ q \<le> a ^ p"
  shows "c \<le> a powr (real p / real q)"
proof -
  have "c = (c powr real q) powr (1 / real q)"
    using c q by (simp add: powr_powr)
  also have "\<dots> = (c ^ q) powr (1 / real q)"
    using c by (simp add: powr_realpow)
  also have "\<dots> \<le> (a ^ p) powr (1 / real q)"
    using le c by (intro powr_mono2) simp_all
  also have "\<dots> = (a powr real p) powr (1 / real q)"
    using a by (simp add: powr_realpow)
  also have "\<dots> = a powr (real p / real q)"
    by (simp add: powr_powr)
  finally show ?thesis .
qed

lemma powr_ratio_upper:
  fixes a c :: real
  assumes c: "0 < c" and a: "0 < a" and q: "0 < q" and lt: "a ^ p < c ^ q"
  shows "a powr (real p / real q) < c"
proof -
  have "a powr (real p / real q) = (a powr real p) powr (1 / real q)"
    by (simp add: powr_powr)
  also have "\<dots> = (a ^ p) powr (1 / real q)"
    using a by (simp add: powr_realpow)
  also have "\<dots> < (c ^ q) powr (1 / real q)"
    using lt a q by (intro powr_less_mono2) simp_all
  also have "\<dots> = (c powr real q) powr (1 / real q)"
    using c by (simp add: powr_realpow)
  also have "\<dots> = c"
    using c q by (simp add: powr_powr)
  finally show ?thesis .
qed

lemma round_half_even_down:
  assumes "of_int n \<le> x" and "x < of_int n + 1 / 2"
  shows "round_half_even x = n"
proof -
  have f: "\<lfloor>x\<rfloor> = n" using assms by linarith
  show ?thesis using assms by (simp add: round_half_even_def f Let_def)
qed

lemma round_half_even_up:
  assumes "of_int n + 1 / 2 < x" and "x < of_int n + 1"
  shows "round_half_even x = n + 1"
proof -
  have f: "\<lfloor>x\<rfloor> = n" using assms by linarith
  show ?thesis using assms by (simp add: round_half_even_def f Let_def)
qed

lemma romm_018_bounds:
  "98 / 255 \<le> (0.18::real) powr (1 / 1.8) \<and> (0.18::real) powr (1 / 1.8) < 98.5 / 255"
proof -
  have e: "(1::real) / 1.8 = real 5 / real 9" by simp
  have lo: "(98 / 255 :: real) \<le> 0.18 powr (real 5 / real 9)"
    by (rule powr_ratio_lower) (simp_all add: power_divide)
  have hi: "(0.18 :: real) powr (real 5 / real 9) < 98.5 / 255"
    by (rule powr_ratio_upper) (simp_all add: power_divide)
  show ?thesis using lo hi by (simp only: e)
qed

lemma powr_045_018_bounds:
  "(0.4620::real) \<le> 0.18 powr 0.45 \<and> (0.18::real) powr 0.45 < 0.4625"
proof -
  have e: "(0.45::real) = real 9 / real 20" by simp
  have lo: "(0.4620 :: real) \<le> 0.18 powr (real 9 / real 20)"
    by (rule powr_ratio_lower) (simp_all add: power_divide)
  have hi: "(0.18 :: real) powr (real 9 / real 20) < 0.4625"
    by (rule powr_ratio_upper) (simp_all add: power_divide)
  show ?thesis using lo hi by (simp only: e)
qed

lemma powr_045_2_bounds:
  "(1.3655::real) \<le> 2 powr 0.45 \<and> (2::real) powr 0.45 < 1.3665"
proof -
  have e: "(0.45::real) = real 9 / real 20" by simp
  have lo: "(1.3655 :: real) \<le> 2 powr (real 9 / real 20)"
    by (rule powr_ratio_lower) (simp_all add: power_divide)
  have hi: "(2 :: real) powr (real 9 / real 20) < 1.3665"
    by (rule powr_ratio_upper) (simp_all add: power_divide)
  show ?thesis using lo hi by (simp only: e)
qed

lemma erimm_018_bounds:
  "25 * ln (316200::real) < 61 * ln 180 \<and> 17 * ln (180::real) < 7 * ln 316200"
proof -
  have p1: "ln ((316200::real) ^ 25) = 25 * ln 316200" by (subst ln_realpow) simp_all
  have p2: "ln ((180::real) ^ 61) = 61 * ln 180" by (subst ln_realpow) simp_all
  have p3: "ln ((180::real) ^ 17) = 17 * ln 180" by (subst ln_realpow) simp_all
  have p4: "ln ((316200::real) ^ 7) = 7 * ln 316200" by (subst ln_realpow) simp_all
  have "ln ((316200::real) ^ 25) < ln (180 ^ 61)"
    by (subst ln_less_cancel_iff) simp_all
  then have a: "25 * ln (316200::real) < 61 * ln 180"
    unfolding p1 p2 .
  have "ln ((180::real) ^ 17) < ln (316200 ^ 7)"
    by (subst ln_less_cancel_iff) simp_all
  then have b: "17 * ln (180::real) < 7 * ln 316200"
    unfolding p3 p4 .
  from a b show ?thesis by (rule conjI)
qed

section \<open>Properties\<close>




text \<open>
  C2. The claim is that an element above \<open>E_clip\<close> is encoded to the clipped maximum
  \<open>I_max\<close>. The code lists the clip condition \<^verbatim>\<open>X > E_clip\<close> last, and \<^verbatim>\<open>np.select\<close>
  takes the first condition that holds, which is \<^verbatim>\<open>X >= 0.018\<close> in \<open>oetf_RIMMRGB\<close> and
  \<^verbatim>\<open>X > E_t\<close> in \<open>log_encoding_ERIMMRGB\<close>: the clip choice is never taken. With the
  default parameters, \<open>X = 3 > E_clip = 2\<close> is encoded on the power segment to a float above
  \<open>1\<close>, and \<open>X = 400 > E_clip = 316.2\<close> on the logarithmic segment, also above \<open>1\<close>.
\<close>

theorem clip_branch_never_selected:
  "oetf_RIMMRGB (Fin 3) 8 False 2 =
     Inr (Fin ((1.099 * 3 powr 0.45 - 0.099) / (1.099 * 2 powr 0.45 - 0.099))) \<and>
   1 < (1.099 * 3 powr 0.45 - 0.099) / (1.099 * 2 powr 0.45 - (0.099::real)) \<and>
   log_encoding_ERIMMRGB (Fin 400) 8 False 0.001 316.2 =
     Fin ((ln 400 - ln 0.001) / (ln 316.2 - ln 0.001)) \<and>
   1 < (ln 400 - ln 0.001) / (ln 316.2 - ln (0.001::real))"
proof -
  have a: "oetf_RIMMRGB (Fin 3) 8 False 2 =
     Inr (Fin ((1.099 * 3 powr 0.45 - 0.099) / (1.099 * 2 powr 0.45 - 0.099)))"
    using oetf_RIMMRGB_Fin [of 2 8 3] V_clip_default_pos by (simp add: rimm_curve_def)
  have "(2::real) powr 0.45 < 3 powr 0.45"
    by (rule powr_less_mono2) simp_all
  then have "1.099 * 2 powr 0.45 - 0.099 < 1.099 * 3 powr 0.45 - (0.099::real)" by simp
  then have b: "1 < (1.099 * 3 powr 0.45 - 0.099) / (1.099 * 2 powr 0.45 - (0.099::real))"
    using V_clip_default_pos by (simp only: less_divide_eq_1_pos)
  have e: "exp 1 * 0.001 < (400::real)" using exp_le by simp
  have L: "0 < ln 316.2 - ln (0.001::real)" by simp
  have c: "log_encoding_ERIMMRGB (Fin 400) 8 False 0.001 316.2 =
     Fin ((ln 400 - ln 0.001) / (ln 316.2 - ln 0.001))"
    using log_encoding_ERIMMRGB_Fin [of "0.001" "316.2" 8 400] e L by simp
  have "ln 316.2 - ln (0.001::real) < ln 400 - ln 0.001" by simp
  then have d: "1 < (ln 400 - ln 0.001) / (ln 316.2 - ln (0.001::real))"
    using L by (simp only: less_divide_eq_1_pos)
  from a b c d show ?thesis by (intro conjI)
qed







text \<open>
  C5. In \<open>eotf_RIMMRGB\<close>, whenever the forward function returns a knee value for \<open>0.018\<close>
  at the same bit depth and \<open>E_clip\<close>, every element \<open>X_p\<close> (scaled by \<open>I_max\<close> unless it
  is an integer code value) is decoded by \<open>m / 4.5\<close> exactly when \<open>X_p / I_max\<close> is strictly
  below that knee value, and by \<open>((m + 0.099) / 1.099) ** (1 / 0.45)\<close> otherwise, where
  \<open>m = V_clip * X_p / I_max\<close>. The knee is the forward function's own output: for a bit
  depth other than \<open>0\<close> it is the power segment at \<open>0.018\<close> divided by \<open>V_clip\<close>.
\<close>

theorem eotf_RIMMRGB_knee_from_oetf:
  assumes V: "V_clip_of E_clip = Inr V_clip"
    and k: "oetf_RIMMRGB (Fin 0.018) bit_depth False E_clip = Inr knee"
  shows "eotf_RIMMRGB X_p bit_depth in_int E_clip =
           Inr (let I_max = Fin (I_max_of bit_depth);
                    X = (if in_int then X_p else np_mul X_p I_max);
                    m = np_div (np_mul (Fin V_clip) X) I_max
                in if np_lt (np_div X I_max) knee then np_div m (Fin 4.5)
                   else np_power (np_div (np_add m (Fin 0.099)) (Fin 1.099)) (1 / 0.45)) \<and>
         (bit_depth \<noteq> 0 \<longrightarrow> knee = Fin ((1.099 * 0.018 powr 0.45 - 0.099) / V_clip))"
proof -
  have a: "eotf_RIMMRGB X_p bit_depth in_int E_clip =
           Inr (let I_max = Fin (I_max_of bit_depth);
                    X = (if in_int then X_p else np_mul X_p I_max);
                    m = np_div (np_mul (Fin V_clip) X) I_max
                in if np_lt (np_div X I_max) knee then np_div m (Fin 4.5)
                   else np_power (np_div (np_add m (Fin 0.099)) (Fin 1.099)) (1 / 0.45))"
    using V k by (simp add: eotf_RIMMRGB_def Let_def np_where_def)
  have b: "knee = Fin ((1.099 * 0.018 powr 0.45 - 0.099) / V_clip)" if b0: "bit_depth \<noteq> 0"
  proof -
    have E: "0 \<le> E_clip"
      using V by (cases "E_clip < 0") (simp_all add: V_clip_of_neg)
    have Vv: "V_clip = 1.099 * E_clip powr 0.45 - 0.099"
      using V V_clip_of_nonneg [OF E] by simp
    have V0: "1.099 * E_clip powr 0.45 - 0.099 \<noteq> 0"
    proof
      assume "1.099 * E_clip powr 0.45 - 0.099 = 0"
      then have "oetf_RIMMRGB (Fin 0.018) bit_depth False E_clip = Inl ZeroDivisionError"
        by (simp add: oetf_RIMMRGB_def V_clip_of_nonneg [OF E] python_div_def Let_def)
      with k show False by simp
    qed
    show ?thesis
      using k oetf_RIMMRGB_Fin [OF E V0 b0, of "0.018"]
      by (simp only: rimm_curve_knee Vv) simp
  qed
  from a b show ?thesis by simp
qed

theorem eotf_RIMMRGB_knee_from_oetf_witness:
  "eotf_RIMMRGB (Fin (1 / 2)) 8 False 2 =
           Inr (let I_max = Fin (I_max_of 8);
                    X = (if False then Fin (1 / 2) else np_mul (Fin (1 / 2)) I_max);
                    m = np_div (np_mul (Fin (1.099 * 2 powr 0.45 - 0.099)) X) I_max
                in if np_lt (np_div X I_max)
                        (Fin (rimm_curve 0.018 / (1.099 * 2 powr 0.45 - 0.099)))
                   then np_div m (Fin 4.5)
                   else np_power (np_div (np_add m (Fin 0.099)) (Fin 1.099)) (1 / 0.45)) \<and>
   Fin (rimm_curve 0.018 / (1.099 * 2 powr 0.45 - 0.099)) =
     Fin ((1.099 * 0.018 powr 0.45 - 0.099) / (1.099 * 2 powr 0.45 - 0.099))"
proof -
  have h1: "V_clip_of 2 = Inr (1.099 * 2 powr 0.45 - 0.099)"
    by (rule V_clip_of_nonneg) simp
  have h2: "oetf_RIMMRGB (Fin 0.018) 8 False 2 =
              Inr (Fin (rimm_curve 0.018 / (1.099 * 2 powr 0.45 - 0.099)))"
    using V_clip_default_pos by (intro oetf_RIMMRGB_Fin) simp_all
  show ?thesis
    using eotf_RIMMRGB_knee_from_oetf [OF h1 h2, of "Fin (1 / 2)" False] by simp
qed




text \<open>
  C7. Lookup in the store of spectral sensitivities ignores case and knows exactly the two
  cameras: a key that equals \<open>Nikon 5100 (NPL)\<close> or \<open>Sigma SDMerill (NPL)\<close> up to case
  returns the record of that camera, the same as the key in its canonical spelling does;
  every other key fails with \<open>NotFoundError\<close>.
\<close>

theorem lookup_case_insensitive:
  "(lower k = lower ''Nikon 5100 (NPL)'' \<longrightarrow>
      getitem DSL_CAMERAS_RGB_SPECTRAL_SENSITIVITIES k =
        getitem DSL_CAMERAS_RGB_SPECTRAL_SENSITIVITIES ''Nikon 5100 (NPL)'' \<and>
      getitem DSL_CAMERAS_RGB_SPECTRAL_SENSITIVITIES k =
        Inr \<lparr>name = ''Nikon 5100 (NPL)'', data = Nikon_5100_NPL_data\<rparr>) \<and>
   (lower k = lower ''Sigma SDMerill (NPL)'' \<longrightarrow>
      getitem DSL_CAMERAS_RGB_SPECTRAL_SENSITIVITIES k =
        getitem DSL_CAMERAS_RGB_SPECTRAL_SENSITIVITIES ''Sigma SDMerill (NPL)'' \<and>
      getitem DSL_CAMERAS_RGB_SPECTRAL_SENSITIVITIES k =
        Inr \<lparr>name = ''Sigma SDMerill (NPL)'', data = Sigma_SDMerill_NPL_data\<rparr>) \<and>
   (lower k \<noteq> lower ''Nikon 5100 (NPL)'' \<and> lower k \<noteq> lower ''Sigma SDMerill (NPL)'' \<longrightarrow>
      getitem DSL_CAMERAS_RGB_SPECTRAL_SENSITIVITIES k = Inl NotFoundError)"
  by (simp add: getitem_def store_lookup lower_nikon lower_sigma)

theorem lookup_case_insensitive_witness:
  "getitem DSL_CAMERAS_RGB_SPECTRAL_SENSITIVITIES ''nikon 5100 (npl)'' =
     getitem DSL_CAMERAS_RGB_SPECTRAL_SENSITIVITIES ''Nikon 5100 (NPL)'' \<and>
   getitem DSL_CAMERAS_RGB_SPECTRAL_SENSITIVITIES ''SIGMA SDMERILL (NPL)'' =
     getitem DSL_CAMERAS_RGB_SPECTRAL_SENSITIVITIES ''Sigma SDMerill (NPL)'' \<and>
   getitem DSL_CAMERAS_RGB_SPECTRAL_SENSITIVITIES ''Canon 5D'' = Inl NotFoundError"
proof -
  have a: "lower ''nikon 5100 (npl)'' = lower ''Nikon 5100 (NPL)''"
    by (simp only: lower_nikon lower_nikon_lc)
  have b: "lower ''SIGMA SDMERILL (NPL)'' = lower ''Sigma SDMerill (NPL)''"
    by (simp only: lower_sigma lower_sigma_uc)
  have c: "lower ''Canon 5D'' \<noteq> lower ''Nikon 5100 (NPL)'' \<and>
           lower ''Canon 5D'' \<noteq> lower ''Sigma SDMerill (NPL)''"
    by (simp add: lower_canon lower_nikon lower_sigma)
  show ?thesis
    using a b c lookup_case_insensitive [of "''nikon 5100 (npl)''"]
      lookup_case_insensitive [of "''SIGMA SDMERILL (NPL)''"]
      lookup_case_insensitive [of "''Canon 5D''"]
    by blast
qed



text \<open>
  C9. The ProPhoto RGB functions are the ROMM RGB functions under another name: on every
  input element, bit depth and integer flag each returns what its ROMM counterpart
  returns.
\<close>

theorem ProPhotoRGB_is_ROMMRGB:
  "oetf_ProPhotoRGB X bit_depth out_int = oetf_ROMMRGB X bit_depth out_int \<and>
   eotf_ProPhotoRGB X_p bit_depth in_int = eotf_ROMMRGB X_p bit_depth in_int"
  by (simp add: oetf_ProPhotoRGB_def eotf_ProPhotoRGB_def)


section \<open>The documented examples\<close>

text \<open>
  X1. The example of the docstring of \<open>oetf_ROMMRGB\<close>: the linear value \<open>0.18\<close> is encoded
  to the 8-bit code value \<open>98\<close>.
\<close>

theorem oetf_ROMMRGB_018_int: "oetf_ROMMRGB (Fin 0.18) 8 True = Fin 98"
proof -
  define v where "v = (0.18::real) powr (1 / 1.8) * 255"
  have "98 \<le> v" "v < 98 + 1 / 2"
    using romm_018_bounds by (simp_all add: v_def)
  then have "round_half_even v = 98"
    using round_half_even_down [of 98 v] by simp
  moreover have "oetf_ROMMRGB (Fin 0.18) 8 True = Fin (of_int (round_half_even v))"
    by (simp add: oetf_ROMMRGB_def I_max_8 Let_def np_where_def E_t_value' v_def)
  ultimately show ?thesis by simp
qed

text \<open>
  X2. The example of the docstring of \<open>oetf_RIMMRGB\<close>: with the default \<open>E_clip = 2\<close>, the
  linear value \<open>0.18\<close> is encoded to the 8-bit code value \<open>74\<close>.
\<close>

theorem oetf_RIMMRGB_018_int: "oetf_RIMMRGB (Fin 0.18) 8 True 2 = Inr (Fin 74)"
proof -
  define g where "g = 1.099 * (0.18::real) powr 0.45 - 0.099"
  define V where "V = 1.099 * (2::real) powr 0.45 - 0.099"
  define v where "v = g * (255 / V)"
  have g: "0.408738 \<le> g" "g < 0.4092875"
    using powr_045_018_bounds by (simp_all add: g_def)
  have V: "1.4016845 \<le> V" "V < 1.4027835"
    using powr_045_2_bounds by (simp_all add: V_def)
  have Vpos: "0 < V" using V by simp
  have "74 * V \<le> g * 255" using g V by simp
  then have lo: "74 \<le> v" using Vpos by (simp add: v_def field_simps)
  have "g * 255 < (74 + 1 / 2) * V" using g V by simp
  then have hi: "v < 74 + 1 / 2" using Vpos by (simp add: v_def field_simps)
  have r: "round_half_even v = 74"
    using round_half_even_down [of 74 v] lo hi by simp
  have "oetf_RIMMRGB (Fin 0.18) 8 True 2 = Inr (Fin (of_int (round_half_even v)))"
    using Vpos
    by (simp add: oetf_RIMMRGB_def V_clip_of_def python_pow_def python_div_def I_max_8 Let_def
        np_ge_def np_gt_def np_sub_def v_def g_def V_def)
  with r show ?thesis by simp
qed

text \<open>
  X3. The example of the docstring of \<open>log_encoding_ERIMMRGB\<close>: with the default
  \<open>E_min = 0.001\<close> and \<open>E_clip = 316.2\<close>, the linear value \<open>0.18\<close> is encoded to the 8-bit
  code value \<open>105\<close>.
\<close>

theorem log_encoding_ERIMMRGB_018_int:
  "log_encoding_ERIMMRGB (Fin 0.18) 8 True 0.001 316.2 = Fin 105"
proof -
  define L where "L = ln (316200::real)"
  define N where "N = ln (180::real)"
  define v where "v = 255 * (N / L)"
  have L: "ln (316.2::real) - ln 0.001 = L"
    using ln_div [of "316.2::real" "0.001"] by (simp add: L_def)
  have N: "ln (0.18::real) - ln 0.001 = N"
    using ln_div [of "0.18::real" "0.001"] by (simp add: N_def)
  have Lpos: "0 < L" by (simp add: L_def)
  have "25 * L < 61 * N" "17 * N < 7 * L"
    using erimm_018_bounds by (simp_all add: L_def N_def)
  then have "(104 + 1 / 2) * L < 255 * N" "255 * N < 105 * L"
    using Lpos by simp_all
  then have lo: "104 + 1 / 2 < v" and hi: "v < 104 + 1"
    using Lpos by (simp_all add: v_def field_simps)
  have r: "round_half_even v = 105"
    using round_half_even_up [of 104 v] lo hi by simp
  have e: "exp 1 * 0.001 < (0.18::real)" using exp_le by simp
  have "log_encoding_ERIMMRGB (Fin 0.18) 8 True 0.001 316.2 =
          Fin (of_int (round_half_even (255 * ((ln 0.18 - ln 0.001) / (ln 316.2 - ln 0.001)))))"
    using e
    by (simp add: log_encoding_ERIMMRGB_def I_max_8 Let_def np_gt_def np_sub_def)
  then show ?thesis using r by (simp only: L N v_def [symmetric]) simp
qed

end
